theory Spec2Isabelle
  imports Complex_Main "HOL-Library.Multiset"
begin

section \<open>Python values and exceptions\<close>

text \<open>
  The values that travel through the service: parsed JSON bodies, the dictionaries of the
  training data and the elements of the feature arrays. Floats are modelled as exact
  reals, except in the double-arithmetic model of the confidence mapping, where rounding
  is the subject; a dictionary is an association list.
\<close>

datatype pyval =
    PyNone
  | PyBool bool
  | PyNum real
  | PyStr string
  | PyList "pyval list"
  | PyDict "(string \<times> pyval) list"

text \<open>
  Exceptions as values. \<open>KeyError\<close> carries the missing key, \<open>Exception\<close> the message
  given to \<^verbatim>\<open>raise Exception(...)\<close>, \<open>LibraryError\<close> whatever a library call raised.
\<close>

datatype error =
    KeyError string
  | TypeError
  | AttributeError
  | IndexError
  | Exception string
  | LibraryError string

text \<open>\<^verbatim>\<open>d[key]\<close>: only a dictionary can be subscripted by a string.\<close>

fun py_getitem :: "pyval \<Rightarrow> string \<Rightarrow> error + pyval" where
  "py_getitem (PyDict kvs) k =
     (case map_of kvs k of None \<Rightarrow> Inl (KeyError k) | Some v \<Rightarrow> Inr v)"
| "py_getitem _ k = Inl TypeError"

text \<open>\<^verbatim>\<open>d.get(key)\<close>: a missing key gives \<^verbatim>\<open>None\<close>; only a dictionary has the method.\<close>

fun py_get :: "pyval \<Rightarrow> string \<Rightarrow> error + pyval" where
  "py_get (PyDict kvs) k =
     (case map_of kvs k of None \<Rightarrow> Inr PyNone | Some v \<Rightarrow> Inr v)"
| "py_get _ k = Inl AttributeError"

text \<open>Truth value of an object, as \<^verbatim>\<open>not x\<close> and \<^verbatim>\<open>if x\<close> test it.\<close>

fun py_truthy :: "pyval \<Rightarrow> bool" where
  "py_truthy PyNone = False"
| "py_truthy (PyBool b) = b"
| "py_truthy (PyNum x) = (x \<noteq> 0)"
| "py_truthy (PyStr s) = (s \<noteq> [])"
| "py_truthy (PyList xs) = (xs \<noteq> [])"
| "py_truthy (PyDict kvs) = (kvs \<noteq> [])"

fun py_len :: "pyval \<Rightarrow> error + nat" where
  "py_len (PyStr s) = Inr (length s)"
| "py_len (PyList xs) = Inr (length xs)"
| "py_len (PyDict kvs) = Inr (length kvs)"
| "py_len _ = Inl TypeError"

text \<open>Iteration (\<^verbatim>\<open>for d in x\<close>): a list gives its items, a string its characters, a
  dictionary its keys.\<close>

fun py_iter :: "pyval \<Rightarrow> error + pyval list" where
  "py_iter (PyList xs) = Inr xs"
| "py_iter (PyStr s) = Inr (map (\<lambda>c. PyStr [c]) s)"
| "py_iter (PyDict kvs) = Inr (map (\<lambda>kv. PyStr (fst kv)) kvs)"
| "py_iter _ = Inl TypeError"

text \<open>The numeric reading of a value in an order comparison with a number; a boolean
  counts as 0 or 1, anything else makes the comparison raise \<^verbatim>\<open>TypeError\<close>.\<close>

fun py_number :: "pyval \<Rightarrow> real option" where
  "py_number (PyNum x) = Some x"
| "py_number (PyBool b) = Some (if b then 1 else 0)"
| "py_number _ = None"

definition py_lt :: "pyval \<Rightarrow> real \<Rightarrow> error + bool" where
  "py_lt v c = (case py_number v of None \<Rightarrow> Inl TypeError | Some x \<Rightarrow> Inr (x < c))"

definition py_gt :: "pyval \<Rightarrow> real \<Rightarrow> error + bool" where
  "py_gt v c = (case py_number v of None \<Rightarrow> Inl TypeError | Some x \<Rightarrow> Inr (x > c))"

text \<open>The chained comparison \<^verbatim>\<open>lo <= v <= hi\<close>.\<close>

definition py_between :: "real \<Rightarrow> pyval \<Rightarrow> real \<Rightarrow> error + bool" where
  "py_between lo v hi =
     (case py_number v of None \<Rightarrow> Inl TypeError | Some x \<Rightarrow> Inr (lo \<le> x \<and> x \<le> hi))"

text \<open>\<^verbatim>\<open>xs[i]\<close> on a sequence, raising \<^verbatim>\<open>IndexError\<close> out of range.\<close>

definition py_index :: "'a list \<Rightarrow> nat \<Rightarrow> error + 'a" where
  "py_index xs i = (if i < length xs then Inr (xs ! i) else Inl IndexError)"

text \<open>\<^verbatim>\<open>int(x)\<close> of a float: truncation towards zero.\<close>

definition py_int :: "real \<Rightarrow> int" where
  "py_int x = (if 0 \<le> x then \<lfloor>x\<rfloor> else \<lceil>x\<rceil>)"

section \<open>Synthetic data generator (data/generate\_training\_data.py)\<close>

text \<open>
  numpy's global random generator is a parameter. Its state has type \<open>'g\<close>; \<open>np_seed\<close> is
  \<^verbatim>\<open>np.random.seed\<close>, which raises on a seed it does not accept, and \<open>np_next\<close> yields the
  next raw output. As in numpy, a double in \<open>[0,1)\<close> is a 53-bit integer divided by
  \<open>2^53\<close>, \<^verbatim>\<open>uniform(low, high)\<close> is \<open>low + (high - low) * u\<close>, and \<^verbatim>\<open>shuffle\<close> is the
  Fisher-Yates loop that swaps position \<open>i\<close> with a random position \<open>j \<le> i\<close> for \<open>i\<close>
  from \<open>n - 1\<close> down to \<open>1\<close>.
\<close>

record 'g numpy_random =
  np_seed :: "int \<Rightarrow> error + 'g"
  np_next :: "'g \<Rightarrow> nat \<times> 'g"

definition random_sample :: "'g numpy_random \<Rightarrow> 'g \<Rightarrow> real \<times> 'g" where
  "random_sample R g =
     (case np_next R g of (k, g') \<Rightarrow> (real (k mod 2 ^ 53) / 2 ^ 53, g'))"

definition uniform :: "'g numpy_random \<Rightarrow> real \<Rightarrow> real \<Rightarrow> 'g \<Rightarrow> real \<times> 'g" where
  "uniform R low high g =
     (case random_sample R g of (u, g') \<Rightarrow> (low + (high - low) * u, g'))"

definition random_interval :: "'g numpy_random \<Rightarrow> nat \<Rightarrow> 'g \<Rightarrow> nat \<times> 'g" where
  "random_interval R mx g = (case np_next R g of (k, g') \<Rightarrow> (k mod Suc mx, g'))"

fun shuffle_from :: "'g numpy_random \<Rightarrow> nat \<Rightarrow> 'a list \<Rightarrow> 'g \<Rightarrow> 'a list \<times> 'g" where
  "shuffle_from R 0 xs g = (xs, g)"
| "shuffle_from R (Suc i) xs g =
     (case random_interval R (Suc i) g of
        (j, g') \<Rightarrow> shuffle_from R i (xs[Suc i := xs ! j, j := xs ! Suc i]) g')"

definition shuffle :: "'g numpy_random \<Rightarrow> 'a list \<Rightarrow> 'g \<Rightarrow> 'a list \<times> 'g" where
  "shuffle R xs g = shuffle_from R (length xs - 1) xs g"

text \<open>The dictionary literal of one reading.\<close>

definition reading :: "real \<Rightarrow> real \<Rightarrow> real \<Rightarrow> pyval" where
  "reading v t p =
     PyDict [(''voltage'', PyNum v), (''temperature'', PyNum t), (''power_output'', PyNum p)]"

text \<open>
  One regime's loop, \<^verbatim>\<open>for _ in range(n): data.append({...})\<close>: each pass draws the
  voltage, the temperature and the power, in this order, and appends the reading.
\<close>

fun append_readings ::
  "'g numpy_random \<Rightarrow> nat \<Rightarrow> real \<times> real \<Rightarrow> real \<times> real \<Rightarrow> real \<times> real \<Rightarrow>
   pyval list \<Rightarrow> 'g \<Rightarrow> pyval list \<times> 'g" where
  "append_readings R 0 vr tr pr data g = (data, g)"
| "append_readings R (Suc n) vr tr pr data g =
     (case uniform R (fst vr) (snd vr) g of (v, g1) \<Rightarrow>
      case uniform R (fst tr) (snd tr) g1 of (t, g2) \<Rightarrow>
      case uniform R (fst pr) (snd pr) g2 of (p, g3) \<Rightarrow>
        append_readings R n vr tr pr (data @ [reading v t p]) g3)"

text \<open>\<^verbatim>\<open>range(k)\<close> of a negative \<open>k\<close> is empty, hence \<open>nat k\<close> passes.\<close>

definition generate_synthetic_data ::
  "'g numpy_random \<Rightarrow> int \<Rightarrow> int \<Rightarrow> error + pyval list" where
  "generate_synthetic_data R num_samples random_seed =
     (case np_seed R random_seed of Inl e \<Rightarrow> Inl e | Inr g0 \<Rightarrow>
      (let num_normal = py_int (of_int num_samples * 0.90);
           num_dust = py_int (of_int num_samples * 0.05);
           num_overheat = py_int (of_int num_samples * 0.03);
           num_voltage_drop = num_samples - num_normal - num_dust - num_overheat
       in (case append_readings R (nat num_normal) (11.5, 12.5) (25, 35) (180, 220) [] g0 of
             (data1, g1) \<Rightarrow>
          (case append_readings R (nat num_dust) (10.5, 11.5) (30, 38) (120, 170) data1 g1 of
             (data2, g2) \<Rightarrow>
          (case append_readings R (nat num_overheat) (10.0, 11.0) (40, 48) (100, 150)
                  data2 g2 of
             (data3, g3) \<Rightarrow>
          (case append_readings R (nat num_voltage_drop) (9.0, 10.5) (25, 35) (80, 130)
                  data3 g3 of
             (data4, g4) \<Rightarrow> Inr (fst (shuffle R data4 g4))))))))"

text \<open>A reading whose three fields are numbers inside the given closed intervals.\<close>

definition field_within :: "pyval \<Rightarrow> string \<Rightarrow> real \<Rightarrow> real \<Rightarrow> bool" where
  "field_within r k lo hi =
     (case py_getitem r k of
        Inr (PyNum x) \<Rightarrow> lo \<le> x \<and> x \<le> hi
      | _ \<Rightarrow> False)"

definition reading_within ::
  "real \<Rightarrow> real \<Rightarrow> real \<Rightarrow> real \<Rightarrow> real \<Rightarrow> real \<Rightarrow> pyval \<Rightarrow> bool" where
  "reading_within vlo vhi tlo thi plo phi r =
     (field_within r ''voltage'' vlo vhi \<and>
      field_within r ''temperature'' tlo thi \<and>
      field_within r ''power_output'' plo phi)"

section \<open>Anomaly model (models/isolation\_forest.py)\<close>

text \<open>
  The libraries the class calls are parameters: numpy's array constructor, scikit-learn's
  split, estimator and metric functions, and joblib. Nothing is assumed about what they
  return, and each may raise. \<open>'est\<close> is the type of whatever object
  sits in \<^verbatim>\<open>self.model\<close>; \<open>sk_fit\<close> mutates it, so it returns the object also when it
  raises.
\<close>

type_synonym ndarray = "pyval list list"

record 'est sklearn =
  IsolationForest :: 'est
  np_array :: "pyval list list \<Rightarrow> error + ndarray"
  train_test_split :: "ndarray \<Rightarrow> real \<Rightarrow> int \<Rightarrow> error + ndarray \<times> ndarray"
  sk_fit :: "'est \<Rightarrow> ndarray \<Rightarrow> error option \<times> 'est"
  sk_predict :: "'est \<Rightarrow> ndarray \<Rightarrow> error + int list"
  sk_score_samples :: "'est \<Rightarrow> ndarray \<Rightarrow> error + real list"
  precision_score :: "int list \<Rightarrow> int list \<Rightarrow> real \<Rightarrow> error + real"
  recall_score :: "int list \<Rightarrow> int list \<Rightarrow> real \<Rightarrow> error + real"
  f1_score :: "int list \<Rightarrow> int list \<Rightarrow> real \<Rightarrow> error + real"
  sk_confusion_matrix :: "int list \<Rightarrow> int list \<Rightarrow> error + int list list"
  joblib_dump :: "'est \<Rightarrow> string \<Rightarrow> error option"
  joblib_load :: "string \<Rightarrow> error + 'est"

record metrics =
  precision :: real
  recall :: real
  f1 :: real
  confusion_matrix :: "int list list"
  test_samples :: nat

text \<open>The object's fields; the empty dictionary of \<^verbatim>\<open>validation_metrics\<close> is \<open>None\<close>.\<close>

record 'est IsolationForestModel =
  model :: 'est
  is_trained :: bool
  training_samples :: nat
  validation_metrics :: "metrics option"

definition init :: "'est sklearn \<Rightarrow> 'est IsolationForestModel" where
  "init L = \<lparr>model = IsolationForest L, is_trained = False, training_samples = 0,
             validation_metrics = None\<rparr>"

text \<open>The list comprehension of \<^verbatim>\<open>train\<close>: one row per item, the three lookups in the
  order voltage, temperature, power\_output; the first failing lookup raises.\<close>

definition feature_row :: "pyval \<Rightarrow> error + pyval list" where
  "feature_row d =
     (case py_getitem d ''voltage'' of Inl e \<Rightarrow> Inl e | Inr v \<Rightarrow>
      (case py_getitem d ''temperature'' of Inl e \<Rightarrow> Inl e | Inr t \<Rightarrow>
      (case py_getitem d ''power_output'' of Inl e \<Rightarrow> Inl e | Inr p \<Rightarrow>
        Inr [v, t, p])))"

fun feature_rows :: "pyval list \<Rightarrow> error + pyval list list" where
  "feature_rows [] = Inr []"
| "feature_rows (d # ds) =
     (case feature_row d of Inl e \<Rightarrow> Inl e | Inr row \<Rightarrow>
      (case feature_rows ds of Inl e \<Rightarrow> Inl e | Inr rows \<Rightarrow> Inr (row # rows)))"

text \<open>The heuristic label of one test sample:
  \<^verbatim>\<open>-1 if (sample[0] < 10 or sample[1] > 40 or sample[2] < 100) else 1\<close>,
  evaluated left to right and stopping at the first true disjunct.\<close>

definition heuristic_label :: "pyval list \<Rightarrow> error + int" where
  "heuristic_label sample =
     (case py_index sample 0 of Inl e \<Rightarrow> Inl e | Inr a \<Rightarrow>
      (case py_lt a 10 of Inl e \<Rightarrow> Inl e | Inr c0 \<Rightarrow>
      if c0 then Inr (- 1) else
      (case py_index sample 1 of Inl e \<Rightarrow> Inl e | Inr b \<Rightarrow>
      (case py_gt b 40 of Inl e \<Rightarrow> Inl e | Inr c1 \<Rightarrow>
      if c1 then Inr (- 1) else
      (case py_index sample 2 of Inl e \<Rightarrow> Inl e | Inr c \<Rightarrow>
      (case py_lt c 100 of Inl e \<Rightarrow> Inl e | Inr c2 \<Rightarrow>
      if c2 then Inr (- 1) else Inr 1))))))"

fun heuristic_labels :: "ndarray \<Rightarrow> error + int list" where
  "heuristic_labels [] = Inr []"
| "heuristic_labels (s # ss) =
     (case heuristic_label s of Inl e \<Rightarrow> Inl e | Inr y \<Rightarrow>
      (case heuristic_labels ss of Inl e \<Rightarrow> Inl e | Inr ys \<Rightarrow> Inr (y # ys)))"

text \<open>\<^verbatim>\<open>(y == -1).astype(int)\<close>.\<close>

definition binary :: "int list \<Rightarrow> int list" where
  "binary ys = map (\<lambda>y. if y = - 1 then 1 else 0) ys"

text \<open>Lines 88 to 115 of \<^verbatim>\<open>train\<close>: the validation of the fitted estimator on the test
  split.\<close>

definition validate :: "'est sklearn \<Rightarrow> 'est \<Rightarrow> ndarray \<Rightarrow> error + metrics" where
  "validate L est X_test =
     (case sk_predict L est X_test of Inl e \<Rightarrow> Inl e | Inr y_pred \<Rightarrow>
      (case heuristic_labels X_test of Inl e \<Rightarrow> Inl e | Inr y_true \<Rightarrow>
      let y_true_binary = binary y_true; y_pred_binary = binary y_pred in
      (case precision_score L y_true_binary y_pred_binary 0 of Inl e \<Rightarrow> Inl e | Inr pr \<Rightarrow>
      (case recall_score L y_true_binary y_pred_binary 0 of Inl e \<Rightarrow> Inl e | Inr rc \<Rightarrow>
      (case f1_score L y_true_binary y_pred_binary 0 of Inl e \<Rightarrow> Inl e | Inr f \<Rightarrow>
      (case sk_confusion_matrix L y_true_binary y_pred_binary of Inl e \<Rightarrow> Inl e | Inr cm \<Rightarrow>
        Inr \<lparr>precision = pr, recall = rc, f1 = f, confusion_matrix = cm,
             test_samples = length X_test\<rparr>))))))"

text \<open>Lines 72 to 76 of \<^verbatim>\<open>train\<close>: the feature array built from the training data.\<close>

definition feature_array :: "'est sklearn \<Rightarrow> pyval \<Rightarrow> error + ndarray" where
  "feature_array L training_data =
     (case py_iter training_data of Inl e \<Rightarrow> Inl e | Inr ds \<Rightarrow>
      (case feature_rows ds of Inl e \<Rightarrow> Inl e | Inr rows \<Rightarrow> np_array L rows))"

text \<open>\<^verbatim>\<open>train\<close> returns the metrics or the exception it re-raises, and the object as the
  call leaves it: the fields are assigned where the source assigns them.\<close>

definition train ::
  "'est sklearn \<Rightarrow> 'est IsolationForestModel \<Rightarrow> pyval \<Rightarrow>
   (error + metrics) \<times> 'est IsolationForestModel" where
  "train L self training_data =
     (case feature_array L training_data of Inl e \<Rightarrow> (Inl e, self) | Inr X \<Rightarrow>
      let self1 = self\<lparr>training_samples := length X\<rparr> in
      (case train_test_split L X 0.2 42 of
         Inl e \<Rightarrow> (Inl e, self1)
       | Inr (X_train, X_test) \<Rightarrow>
      (case sk_fit L (model self1) X_train of
         (Some e, est) \<Rightarrow> (Inl e, self1\<lparr>model := est\<rparr>)
       | (None, est) \<Rightarrow>
      let self2 = self1\<lparr>model := est, is_trained := True\<rparr> in
      (case validate L est X_test of
         Inl e \<Rightarrow> (Inl e, self2)
       | Inr vm \<Rightarrow> (Inr vm, self2\<lparr>validation_metrics := Some vm\<rparr>)))))"

text \<open>The spec's logistic function.\<close>

definition sigmoid :: "real \<Rightarrow> real" where
  "sigmoid x = 1 / (1 + exp (- x))"

text \<open>The confidence mapping of lines 195 to 204 in exact arithmetic.\<close>

definition calculate_confidence :: "real \<Rightarrow> real" where
  "calculate_confidence anomaly_score =
     (let normalized = 1 / (1 + exp (- anomaly_score * 10));
          confidence = (if anomaly_score < 0 then 1 - normalized else normalized)
      in max 0 (min 1 confidence))"

text \<open>
  The same function in the arithmetic the program runs in. A double is a finite value or
  an infinity; a NaN cannot arise from a finite score, and the two zeros are identified.
  \<open>d_round\<close> is IEEE 754 binary64 rounding to nearest, ties to even: the spacing in the
  binade of \<open>x\<close> is \<open>2^(k - 52)\<close> with \<open>k\<close> the exponent of \<open>x\<close>, not below \<open>-1022\<close> (the
  subnormal range), and a result of magnitude \<open>2^1024\<close> overflows to an infinity.
\<close>

datatype double = Finite real | PosInf | NegInf

definition round_half_even :: "real \<Rightarrow> int" where
  "round_half_even z =
     (let f = \<lfloor>z\<rfloor> in
      if z - of_int f < 1 / 2 then f
      else if z - of_int f > 1 / 2 then f + 1
      else if even f then f else f + 1)"

definition d_round :: "real \<Rightarrow> double" where
  "d_round x =
     (if x = 0 then Finite 0
      else
        let k = max \<lfloor>log 2 \<bar>x\<bar>\<rfloor> (- 1022);
            q = 2 powi (k - 52);
            r = of_int (round_half_even (\<bar>x\<bar> / q)) * q
        in if 2 ^ 1024 \<le> r then (if 0 < x then PosInf else NegInf)
           else Finite (sgn x * r))"

text \<open>
  The operations of line 195 and 199, each rounded once: \<^verbatim>\<open>np.exp(x)\<close> (taken as correctly
  rounded), \<^verbatim>\<open>1 + x\<close>, \<^verbatim>\<open>1 / x\<close> and \<^verbatim>\<open>1 - x\<close>. Dividing by zero gives an infinity, as
  numpy does.
\<close>

fun d_exp :: "double \<Rightarrow> double" where
  "d_exp (Finite x) = d_round (exp x)"
| "d_exp PosInf = PosInf"
| "d_exp NegInf = Finite 0"

fun one_plus :: "double \<Rightarrow> double" where
  "one_plus (Finite x) = d_round (1 + x)"
| "one_plus PosInf = PosInf"
| "one_plus NegInf = NegInf"

fun one_over :: "double \<Rightarrow> double" where
  "one_over (Finite x) = (if x = 0 then PosInf else d_round (1 / x))"
| "one_over PosInf = Finite 0"
| "one_over NegInf = Finite 0"

fun one_minus :: "double \<Rightarrow> double" where
  "one_minus (Finite x) = d_round (1 - x)"
| "one_minus PosInf = NegInf"
| "one_minus NegInf = PosInf"

text \<open>The comparison \<^verbatim>\<open>x < y\<close>.\<close>

fun d_less :: "double \<Rightarrow> double \<Rightarrow> bool" where
  "d_less (Finite x) (Finite y) = (x < y)"
| "d_less NegInf (Finite y) = True"
| "d_less NegInf PosInf = True"
| "d_less (Finite x) PosInf = True"
| "d_less _ _ = False"

text \<open>Lines 195 to 201: the value before the clamp. The product \<^verbatim>\<open>-anomaly_score * 10\<close>
  is rounded once, the negation being exact.\<close>

definition raw_confidence_double :: "real \<Rightarrow> double" where
  "raw_confidence_double anomaly_score =
     (let normalized = one_over (one_plus (d_exp (d_round (- anomaly_score * 10))))
      in if anomaly_score < 0 then one_minus normalized else normalized)"

text \<open>Line 204: \<^verbatim>\<open>min(1.0, c)\<close> is \<open>c\<close> when \<open>c < 1.0\<close> and \<open>1.0\<close> otherwise, and
  \<^verbatim>\<open>max(0.0, m)\<close> is \<open>m\<close> when \<open>0.0 < m\<close> and \<open>0.0\<close> otherwise.\<close>

definition calculate_confidence_double :: "real \<Rightarrow> double" where
  "calculate_confidence_double anomaly_score =
     (let confidence = raw_confidence_double anomaly_score;
          m = (if d_less confidence (Finite 1) then confidence else Finite 1)
      in if d_less (Finite 0) m then m else Finite 0)"

record prediction_result =
  prediction :: string
  confidence :: real
  model_version :: string
  anomaly_score :: real

definition predict ::
  "'est sklearn \<Rightarrow> 'est IsolationForestModel \<Rightarrow> pyval \<Rightarrow> pyval \<Rightarrow> pyval \<Rightarrow>
   error + prediction_result" where
  "predict L self voltage temperature power_output =
     (if \<not> is_trained self then Inl (Exception ''Model not trained. Call train() first.'')
      else
      case np_array L [[voltage, temperature, power_output]] of Inl e \<Rightarrow> Inl e | Inr X \<Rightarrow>
      (case sk_predict L (model self) X of Inl e \<Rightarrow> Inl e | Inr ys \<Rightarrow>
      (case py_index ys 0 of Inl e \<Rightarrow> Inl e | Inr prediction_value \<Rightarrow>
      (case sk_score_samples L (model self) X of Inl e \<Rightarrow> Inl e | Inr ss \<Rightarrow>
      (case py_index ss 0 of Inl e \<Rightarrow> Inl e | Inr score \<Rightarrow>
        Inr \<lparr>prediction = (if prediction_value = 1 then ''Normal'' else ''Failure Likely''),
             confidence = calculate_confidence score,
             model_version = ''v1.0-isolation-forest'',
             anomaly_score = score\<rparr>)))))"

definition save_model :: "'est sklearn \<Rightarrow> 'est IsolationForestModel \<Rightarrow> string \<Rightarrow> error option" where
  "save_model L self filepath =
     (if \<not> is_trained self then Some (Exception ''Cannot save untrained model'')
      else joblib_dump L (model self) filepath)"

definition load_model ::
  "'est sklearn \<Rightarrow> 'est IsolationForestModel \<Rightarrow> string \<Rightarrow>
   error option \<times> 'est IsolationForestModel" where
  "load_model L self filepath =
     (case joblib_load L filepath of
        Inl e \<Rightarrow> (Some e, self)
      | Inr obj \<Rightarrow> (None, self\<lparr>model := obj, is_trained := True\<rparr>))"

section \<open>HTTP service (server.py)\<close>

text \<open>
  A handler returns the JSON body and the status code. \<open>JsonFailure\<close> is the body of the
  broad exception handlers, \<^verbatim>\<open>{'error': ..., 'message': str(e)}\<close>, kept with the
  exception itself. The request is what \<^verbatim>\<open>request.get_json()\<close> gives: the parsed body,
  or the exception it raises. The global \<^verbatim>\<open>model\<close> is \<open>None\<close> when construction failed.
\<close>

datatype response =
    JsonError string
  | JsonFailure string error
  | JsonPrediction prediction_result
  | JsonRetrained nat

definition predict_endpoint ::
  "'est sklearn \<Rightarrow> 'est IsolationForestModel option \<Rightarrow> error + pyval \<Rightarrow> response \<times> nat" where
  "predict_endpoint L mdl request_json =
     (let failed = (\<lambda>e. (JsonFailure ''Prediction failed'' e, 500)) in
      case request_json of Inl e \<Rightarrow> failed e | Inr data \<Rightarrow>
      if \<not> py_truthy data then (JsonError ''No JSON data provided'', 400) else
      (case py_get data ''voltage'' of Inl e \<Rightarrow> failed e | Inr voltage \<Rightarrow>
      (case py_get data ''temperature'' of Inl e \<Rightarrow> failed e | Inr temperature \<Rightarrow>
      (case py_get data ''power_output'' of Inl e \<Rightarrow> failed e | Inr power_output \<Rightarrow>
      if voltage = PyNone \<or> temperature = PyNone \<or> power_output = PyNone
      then (JsonError ''Missing required fields: voltage, temperature, power_output'', 400)
      else
      (case py_between 8 voltage 14 of Inl e \<Rightarrow> failed e | Inr _ \<Rightarrow>
      (case py_between 15 temperature 50 of Inl e \<Rightarrow> failed e | Inr _ \<Rightarrow>
      (case py_between 0 power_output 300 of Inl e \<Rightarrow> failed e | Inr _ \<Rightarrow>
      (case mdl of
        None \<Rightarrow> (JsonError ''Model not trained. Run training first.'', 500)
      | Some m \<Rightarrow>
      if \<not> is_trained m then (JsonError ''Model not trained. Run training first.'', 500)
      else
      (case predict L m voltage temperature power_output of
        Inl e \<Rightarrow> failed e
      | Inr prediction_result \<Rightarrow> (JsonPrediction prediction_result, 200))))))))))"

text \<open>\<^verbatim>\<open>/retrain\<close> also returns the global model as the request leaves it.\<close>

definition retrain ::
  "'est sklearn \<Rightarrow> 'est IsolationForestModel option \<Rightarrow> error + pyval \<Rightarrow>
   (response \<times> nat) \<times> 'est IsolationForestModel option" where
  "retrain L mdl request_json =
     (let failed = (\<lambda>e. (JsonFailure ''Retraining failed'' e, 500)) in
      case request_json of Inl e \<Rightarrow> (failed e, mdl) | Inr data \<Rightarrow>
      (case py_get data ''training_data'' of Inl e \<Rightarrow> (failed e, mdl) | Inr training_data \<Rightarrow>
      if \<not> py_truthy training_data
      then ((JsonError ''Need at least 100 training samples'', 400), mdl) else
      (case py_len training_data of Inl e \<Rightarrow> (failed e, mdl) | Inr n \<Rightarrow>
      if n < 100 then ((JsonError ''Need at least 100 training samples'', 400), mdl) else
      (case mdl of None \<Rightarrow> (failed AttributeError, mdl) | Some m \<Rightarrow>
      (case train L m training_data of
        (Inl e, m') \<Rightarrow> (failed e, Some m')
      | (Inr vm, m') \<Rightarrow> ((JsonRetrained n, 200), Some m'))))))"

section \<open>A concrete library instance\<close>

text \<open>
  The theorems below hold for every behaviour of the libraries. To run the model on
  concrete inputs one instance is fixed here. It follows scikit-learn where the examples
  depend on it: the split puts \<open>\<lceil>test_size * n\<rceil>\<close> rows in the test set and raises when
  the train set would be empty, and fitting raises on an array with a non-numeric entry.
  The rest is kept as simple as possible: no row is moved by the split, every sample is
  predicted normal with score 0.1, and the metrics count the four cells of the
  confusion matrix.
\<close>

datatype estimator = Unfitted | Fitted ndarray

fun is_number :: "pyval \<Rightarrow> bool" where
  "is_number (PyNum x) = True"
| "is_number (PyBool b) = True"
| "is_number _ = False"

definition numeric_array :: "ndarray \<Rightarrow> bool" where
  "numeric_array X = list_all (list_all is_number) X"

definition count_cell :: "int \<Rightarrow> int \<Rightarrow> int list \<Rightarrow> int list \<Rightarrow> nat" where
  "count_cell a b y_true y_pred = length (filter (\<lambda>yp. yp = (a, b)) (zip y_true y_pred))"

definition ratio_or :: "real \<Rightarrow> nat \<Rightarrow> nat \<Rightarrow> real" where
  "ratio_or zero_division num den = (if den = 0 then zero_division else real num / real den)"

definition example_sklearn :: "estimator sklearn" where
  "example_sklearn =
     \<lparr>IsolationForest = Unfitted,
      np_array = Inr,
      train_test_split = (\<lambda>X test_size random_state.
        let n_test = nat \<lceil>test_size * real (length X)\<rceil>; n_train = length X - n_test in
        if n_train = 0 then Inl (LibraryError ''the resulting train set will be empty'')
        else Inr (take n_train X, drop n_train X)),
      sk_fit = (\<lambda>est X.
        if numeric_array X then (None, Fitted X)
        else (Some (LibraryError ''could not convert string to float''), est)),
      sk_predict = (\<lambda>est X. Inr (map (\<lambda>row. 1) X)),
      sk_score_samples = (\<lambda>est X. Inr (map (\<lambda>row. 0.1) X)),
      precision_score = (\<lambda>y_true y_pred zd.
        Inr (ratio_or zd (count_cell 1 1 y_true y_pred)
               (count_cell 1 1 y_true y_pred + count_cell 0 1 y_true y_pred))),
      recall_score = (\<lambda>y_true y_pred zd.
        Inr (ratio_or zd (count_cell 1 1 y_true y_pred)
               (count_cell 1 1 y_true y_pred + count_cell 1 0 y_true y_pred))),
      f1_score = (\<lambda>y_true y_pred zd.
        Inr (ratio_or zd (2 * count_cell 1 1 y_true y_pred)
               (2 * count_cell 1 1 y_true y_pred + count_cell 0 1 y_true y_pred
                + count_cell 1 0 y_true y_pred))),
      sk_confusion_matrix = (\<lambda>y_true y_pred.
        Inr [[int (count_cell 0 0 y_true y_pred), int (count_cell 0 1 y_true y_pred)],
             [int (count_cell 1 0 y_true y_pred), int (count_cell 1 1 y_true y_pred)]]),
      joblib_dump = (\<lambda>est filepath. None),
      joblib_load = (\<lambda>filepath. Inr Unfitted)\<rparr>"

text \<open>
  A random generator for the examples: it accepts the seeds numpy accepts, and its state
  is a counter whose three low bits become the three high bits of the next draw.
\<close>

definition example_random :: "nat numpy_random" where
  "example_random =
     \<lparr>np_seed = (\<lambda>s. if 0 \<le> s \<and> s < 2 ^ 32 then Inr (nat s)
                      else Inl (LibraryError ''Seed must be between 0 and 2**32 - 1'')),
      np_next = (\<lambda>g. (g * 2 ^ 50, Suc g))\<rparr>"

text \<open>A model as the service holds it after start-up: trained on 10,000 samples.\<close>

definition example_trained :: "estimator IsolationForestModel" where
  "example_trained =
     \<lparr>model = Fitted [], is_trained = True, training_samples = 10000,
      validation_metrics =
        Some \<lparr>precision = 1, recall = 1, f1 = 1, confusion_matrix = [[1800, 0], [0, 200]],
              test_samples = 2000\<rparr>\<rparr>"

text \<open>Five readings, the last one an overheating panel.\<close>

definition example_readings :: pyval where
  "example_readings =
     PyList [reading 12 28 200, reading 12.1 30 210, reading 11.9 27 190,
             reading 12.2 33 205, reading 10.5 45 120]"

text \<open>The same with a string where the first voltage should be.\<close>

definition malformed_readings :: pyval where
  "malformed_readings =
     PyList [PyDict [(''voltage'', PyStr ''abc''), (''temperature'', PyNum 28),
                     (''power_output'', PyNum 200)],
             reading 12.1 30 210, reading 11.9 27 190,
             reading 12.2 33 205, reading 10.5 45 120]"

section \<open>Properties of the confidence mapping\<close>

lemma sigmoid_pos: "0 < sigmoid x"
  by (simp add: sigmoid_def add_pos_pos)

lemma sigmoid_lt1: "sigmoid x < 1"
  by (simp add: sigmoid_def add_pos_pos)

lemma sigmoid_ge_half:
  assumes "0 \<le> x"
  shows "1 / 2 \<le> sigmoid x"
proof -
  from assms have "exp (- x) \<le> 1" by simp
  hence "1 + exp (- x) \<le> 2" by simp
  moreover have "0 < 1 + exp (- x)" by (simp add: add_pos_pos)
  ultimately have "1 / 2 \<le> 1 / (1 + exp (- x))"
    by (intro divide_left_mono) simp_all
  thus ?thesis by (simp add: sigmoid_def)
qed

lemma sigmoid_neg: "1 - sigmoid x = sigmoid (- x)"
proof -
  define a where "a = exp x"
  have a: "0 < a" by (simp add: a_def)
  have "1 - 1 / (1 + 1 / a) = 1 / (1 + a)"
    using a by (simp add: field_simps)
  thus ?thesis by (simp add: sigmoid_def a_def exp_minus inverse_eq_divide)
qed

lemma normalized_sigmoid: "1 / (1 + exp (- s * 10)) = sigmoid (10 * s)"
  by (simp add: sigmoid_def mult.commute)

text \<open>The clamp is the identity on the value the two branches compute.\<close>

lemma calculate_confidence_unclamped:
  "calculate_confidence s = (if s < 0 then 1 - sigmoid (10 * s) else sigmoid (10 * s))"
  using sigmoid_pos[of "10 * s"] sigmoid_lt1[of "10 * s"]
  by (simp add: calculate_confidence_def Let_def normalized_sigmoid del: mult_minus_left)

lemma calculate_confidence_abs: "calculate_confidence s = sigmoid (10 * \<bar>s\<bar>)"
  using sigmoid_neg[of "10 * s"]
  by (simp add: calculate_confidence_unclamped abs_if)

lemma sigmoid_at_top: "(sigmoid \<longlongrightarrow> 1) at_top"
proof -
  have "((\<lambda>x::real. 1 / (1 + exp (- x))) \<longlongrightarrow> 1 / (1 + 0)) at_top"
    by (intro tendsto_intros filterlim_compose[OF exp_at_bot] filterlim_uminus_at_bot_at_top)
       simp_all
  thus ?thesis by (simp add: sigmoid_def[abs_def])
qed

lemma scaled_abs_at_top: "filterlim (\<lambda>s::real. 10 * \<bar>s\<bar>) at_top at_top"
  by (intro filterlim_tendsto_pos_mult_at_top[OF tendsto_const] filterlim_abs_real) simp_all

lemma scaled_abs_at_bot: "filterlim (\<lambda>s::real. 10 * \<bar>s\<bar>) at_top at_bot"
proof -
  have "filterlim (\<lambda>s::real. 10 * \<bar>- s\<bar>) at_top at_top"
    using scaled_abs_at_top by simp
  thus ?thesis by (subst filterlim_at_bot_mirror)
qed

text \<open>
  Claim C1. Over the reals, the confidence of a score \<open>s\<close> is \<open>sigmoid (10 * s)\<close> for
  \<open>s \<ge> 0\<close> and \<open>1 - sigmoid (10 * s)\<close> for \<open>s < 0\<close>, clamped to \<open>[0,1]\<close>; it lies in
  \<open>[0,1]\<close>, is one half at \<open>s = 0\<close>, and tends to 1 as \<open>s\<close> tends to plus or to minus
  infinity.
\<close>

theorem calculate_confidence_spec:
  "calculate_confidence s =
     max 0 (min 1 (if 0 \<le> s then sigmoid (10 * s) else 1 - sigmoid (10 * s))) \<and>
   0 \<le> calculate_confidence s \<and> calculate_confidence s \<le> 1 \<and>
   calculate_confidence 0 = 1 / 2 \<and>
   (calculate_confidence \<longlongrightarrow> 1) at_top \<and>
   (calculate_confidence \<longlongrightarrow> 1) at_bot"
proof -
  have eq: "calculate_confidence s =
      max 0 (min 1 (if 0 \<le> s then sigmoid (10 * s) else 1 - sigmoid (10 * s)))"
    by (simp add: calculate_confidence_def Let_def normalized_sigmoid not_less
             del: mult_minus_left)
  have rng: "0 \<le> calculate_confidence s" "calculate_confidence s \<le> 1"
    using sigmoid_pos[of "10 * \<bar>s\<bar>"] sigmoid_lt1[of "10 * \<bar>s\<bar>"]
    by (simp_all add: calculate_confidence_abs)
  have zero: "calculate_confidence 0 = 1 / 2"
    by (simp add: calculate_confidence_abs sigmoid_def)
  have top: "(calculate_confidence \<longlongrightarrow> 1) at_top"
    using filterlim_compose[OF sigmoid_at_top scaled_abs_at_top]
    by (simp add: calculate_confidence_abs[abs_def])
  have bot: "(calculate_confidence \<longlongrightarrow> 1) at_bot"
    using filterlim_compose[OF sigmoid_at_top scaled_abs_at_bot]
    by (simp add: calculate_confidence_abs[abs_def])
  from eq rng zero top bot show ?thesis by blast
qed

section \<open>Properties of the confidence in double arithmetic\<close>

lemma rhe_bounds: "\<lfloor>z\<rfloor> \<le> round_half_even z \<and> round_half_even z \<le> \<lceil>z\<rceil>"
proof -
  have "z - of_int \<lfloor>z\<rfloor> > 0 \<Longrightarrow> \<lfloor>z\<rfloor> + 1 \<le> \<lceil>z\<rceil>"
    by linarith
  thus ?thesis
    unfolding round_half_even_def Let_def
    using floor_le_ceiling[of z] by auto
qed

lemma rhe_ge: "of_int N \<le> z \<Longrightarrow> N \<le> round_half_even z"
  using rhe_bounds[of z] by (meson le_floor_iff order_trans)

lemma rhe_le: "z \<le> of_int N \<Longrightarrow> round_half_even z \<le> N"
  using rhe_bounds[of z] by (meson ceiling_le_iff order_trans)

lemma rhe_of_int: "round_half_even (of_int N) = N"
  using rhe_ge[of N "of_int N"] rhe_le[of "of_int N" N] by simp

lemma two_powr_int: "(2::real) powr (of_int j) = 2 powi j"
  by (rule powr_real_of_int') simp_all

lemma floor_log2:
  assumes "0 < x"
  shows "2 powi \<lfloor>log 2 x\<rfloor> \<le> x" "x < 2 powi (\<lfloor>log 2 x\<rfloor> + 1)"
proof -
  have "of_int \<lfloor>log 2 x\<rfloor> \<le> log 2 x" by simp
  hence "2 powr (of_int \<lfloor>log 2 x\<rfloor>) \<le> x"
    using le_log_iff[of 2 x "of_int \<lfloor>log 2 x\<rfloor>"] assms by simp
  thus "2 powi \<lfloor>log 2 x\<rfloor> \<le> x" by (simp only: two_powr_int)
  have "log 2 x < of_int (\<lfloor>log 2 x\<rfloor> + 1)" by linarith
  hence "x < 2 powr (of_int (\<lfloor>log 2 x\<rfloor> + 1))"
    using log_less_iff[of 2 x "of_int (\<lfloor>log 2 x\<rfloor> + 1)"] assms by simp
  thus "x < 2 powi (\<lfloor>log 2 x\<rfloor> + 1)" by (simp only: two_powr_int)
qed

lemma floor_log2_le:
  assumes "0 < x" "x \<le> 2 powi j"
  shows "\<lfloor>log 2 x\<rfloor> \<le> j"
proof (rule ccontr)
  assume "\<not> \<lfloor>log 2 x\<rfloor> \<le> j"
  hence "j + 1 \<le> \<lfloor>log 2 x\<rfloor>" by simp
  hence "(2::real) powi (j + 1) \<le> 2 powi \<lfloor>log 2 x\<rfloor>"
    by (intro power_int_increasing) simp_all
  also have "\<dots> \<le> x" by (rule floor_log2(1)[OF assms(1)])
  finally have "(2::real) powi (j + 1) \<le> 2 powi j" using assms(2) by simp
  moreover have "(2::real) powi j < 2 powi (j + 1)"
    by (intro power_int_strict_increasing) simp_all
  ultimately show False by simp
qed

lemma floor_log2_ge:
  assumes "2 powi j \<le> x"
  shows "j \<le> \<lfloor>log 2 x\<rfloor>"
proof (rule ccontr)
  have x: "0 < x" using assms by (rule less_le_trans[rotated]) simp
  assume "\<not> j \<le> \<lfloor>log 2 x\<rfloor>"
  hence "\<lfloor>log 2 x\<rfloor> + 1 \<le> j" by simp
  hence "(2::real) powi (\<lfloor>log 2 x\<rfloor> + 1) \<le> 2 powi j"
    by (intro power_int_increasing) simp_all
  with floor_log2(2)[OF x] assms show False by simp
qed


lemma d_round_pos:
  assumes "0 < x"
  shows "d_round x =
     (let k = max \<lfloor>log 2 x\<rfloor> (- 1022);
          q = 2 powi (k - 52);
          r = of_int (round_half_even (x / q)) * q
      in if 2 ^ 1024 \<le> r then PosInf else Finite r)"
  using assms by (simp add: d_round_def Let_def)

lemma d_round_le_power:
  assumes x: "0 < x" and le: "x \<le> 2 powi j" and j: "- 1074 \<le> j" "j \<le> 1023"
  shows "\<exists>y. d_round x = Finite y \<and> 0 \<le> y \<and> y \<le> 2 powi j"
proof -
  define k where "k = max \<lfloor>log 2 x\<rfloor> (- 1022)"
  define q :: real where "q = 2 powi (k - 52)"
  define m where "m = round_half_even (x / q)"
  define N :: int where "N = 2 ^ nat (j - (k - 52))"
  have q: "0 < q" by (simp add: q_def)
  have "\<lfloor>log 2 x\<rfloor> \<le> j" using x le by (rule floor_log2_le)
  hence kj: "0 \<le> j - (k - 52)" using j by (simp add: k_def)
  have "(2::real) powi j = 2 powi ((j - (k - 52)) + (k - 52))" by simp
  also have "\<dots> = 2 powi (j - (k - 52)) * 2 powi (k - 52)"
    by (rule power_int_add) simp
  also have "(2::real) powi (j - (k - 52)) = of_int N"
    using kj by (simp add: N_def power_int_def)
  finally have pj: "2 powi j = of_int N * q" by (simp add: q_def)
  have "x / q \<le> of_int N" using le q by (simp add: pj field_simps)
  hence mN: "m \<le> N" unfolding m_def by (rule rhe_le)
  have "of_int 0 \<le> x / q" using x q by simp
  hence m0: "0 \<le> m" unfolding m_def by (rule rhe_ge)
  have r_le: "of_int m * q \<le> 2 powi j"
    unfolding pj using mN q by (simp add: mult_right_mono)
  have r_ge: "0 \<le> of_int m * q" using m0 q by simp
  have "(2::real) powi j \<le> 2 powi 1023"
    using j(2) by (intro power_int_increasing) simp_all
  also have "\<dots> < 2 ^ 1024" by (simp add: power_int_def)
  finally have "\<not> 2 ^ 1024 \<le> of_int m * q" using r_le by simp
  hence "d_round x = Finite (of_int m * q)"
    unfolding d_round_pos[OF x] Let_def k_def[symmetric] q_def[symmetric] m_def[symmetric]
    by simp
  with r_le r_ge show ?thesis by blast
qed

lemma d_round_ge_power:
  assumes le: "2 powi j \<le> x" and j: "- 1022 \<le> j"
  shows "d_round x = PosInf \<or> (\<exists>y. d_round x = Finite y \<and> 2 powi j \<le> y)"
proof -
  have x: "0 < x" using le by (rule less_le_trans[rotated]) simp
  define k where "k = max \<lfloor>log 2 x\<rfloor> (- 1022)"
  define q :: real where "q = 2 powi (k - 52)"
  define m where "m = round_half_even (x / q)"
  have q: "0 < q" by (simp add: q_def)
  have jk: "j \<le> \<lfloor>log 2 x\<rfloor>" using le by (rule floor_log2_ge)
  hence k: "k = \<lfloor>log 2 x\<rfloor>" using j by (simp add: k_def)
  have pk: "(2::real) powi k = of_int (2 ^ 52) * q"
  proof -
    have "(2::real) powi k = 2 powi (52 + (k - 52))" by simp
    also have "\<dots> = 2 powi 52 * 2 powi (k - 52)" by (rule power_int_add) simp
    finally show ?thesis by (simp add: q_def power_int_def)
  qed
  have "2 powi k \<le> x" unfolding k by (rule floor_log2(1)[OF x])
  hence "of_int (2 ^ 52) \<le> x / q" using q unfolding pk by (simp add: field_simps)
  hence "2 ^ 52 \<le> m" unfolding m_def by (rule rhe_ge)
  hence "of_int (2 ^ 52) * q \<le> of_int m * q" using q by (simp add: mult_right_mono)
  hence "2 powi k \<le> of_int m * q" unfolding pk .
  moreover have "(2::real) powi j \<le> 2 powi k"
    using jk unfolding k by (intro power_int_increasing) simp_all
  ultimately have r: "2 powi j \<le> of_int m * q" by simp
  have "d_round x = (if 2 ^ 1024 \<le> of_int m * q then PosInf else Finite (of_int m * q))"
    unfolding d_round_pos[OF x] Let_def k_def[symmetric] q_def[symmetric] m_def[symmetric]
    by simp
  with r show ?thesis by auto
qed

lemma d_round_neg:
  assumes "x \<le> 0"
  shows "d_round x = NegInf \<or> (\<exists>y. d_round x = Finite y \<and> y \<le> 0)"
proof (cases "x = 0")
  case True
  thus ?thesis by (simp add: d_round_def)
next
  case False
  with assms have x: "x < 0" by simp
  define q :: real where "q = 2 powi (max \<lfloor>log 2 \<bar>x\<bar>\<rfloor> (- 1022) - 52)"
  define r where "r = of_int (round_half_even (\<bar>x\<bar> / q)) * q"
  have q: "0 < q" by (simp add: q_def)
  have "of_int 0 \<le> \<bar>x\<bar> / q" using q by simp
  hence "0 \<le> round_half_even (\<bar>x\<bar> / q)" by (rule rhe_ge)
  hence r: "0 \<le> r" using q by (simp add: r_def)
  have "d_round x = (if 2 ^ 1024 \<le> r then NegInf else Finite (sgn x * r))"
    using x unfolding d_round_def Let_def q_def[symmetric] r_def[symmetric] by simp
  moreover have "sgn x * r \<le> 0" using x r by (simp add: mult_le_0_iff)
  ultimately show ?thesis by auto
qed

lemma d_round_nonneg:
  assumes "0 \<le> x"
  shows "d_round x = PosInf \<or> (\<exists>y. d_round x = Finite y \<and> 0 \<le> y)"
proof (cases "x = 0")
  case True
  thus ?thesis by (simp add: d_round_def)
next
  case False
  with assms have x: "0 < x" by simp
  define q :: real where "q = 2 powi (max \<lfloor>log 2 x\<rfloor> (- 1022) - 52)"
  have q: "0 < q" by (simp add: q_def)
  have "of_int 0 \<le> x / q" using q x by simp
  hence "0 \<le> round_half_even (x / q)" by (rule rhe_ge)
  hence "0 \<le> of_int (round_half_even (x / q)) * q" using q by simp
  thus ?thesis using x
    by (auto simp: d_round_pos Let_def q_def[symmetric])
qed


lemma d_round_between:
  assumes "2 powi a \<le> x" and "x \<le> 2 powi b" and "- 1022 \<le> a" and "b \<le> 1023"
  shows "\<exists>y. d_round x = Finite y \<and> 2 powi a \<le> y \<and> y \<le> 2 powi b"
proof -
  have x: "0 < x" using assms(1) by (rule less_le_trans[rotated]) simp
  have "(2::real) powi a \<le> 2 powi b" using assms(1,2) by simp
  hence "a \<le> b" by (smt (verit) power_int_strict_increasing)
  hence "- 1074 \<le> b" using assms(3) by simp
  from d_round_le_power[OF x assms(2) this assms(4)]
  obtain y where y: "d_round x = Finite y" "y \<le> 2 powi b" by blast
  from d_round_ge_power[OF assms(1,3)] y(1) have "2 powi a \<le> y" by simp
  with y show ?thesis by blast
qed

lemma confidence_double_nonneg_score:
  assumes "0 \<le> s"
  shows "\<exists>r. raw_confidence_double s = Finite r \<and> 1 / 2 \<le> r \<and> r \<le> 1"
proof -
  have "- s * 10 \<le> 0" using assms by simp
  from d_round_neg[OF this]
  have "\<exists>y. d_exp (d_round (- s * 10)) = Finite y \<and> 0 \<le> y \<and> y \<le> 1"
  proof
    assume "d_round (- s * 10) = NegInf"
    thus ?thesis by simp
  next
    assume "\<exists>t. d_round (- s * 10) = Finite t \<and> t \<le> 0"
    then obtain t where t: "d_round (- s * 10) = Finite t" "t \<le> 0" by blast
    have "0 < exp t" "exp t \<le> 2 powi 0" using t(2) by simp_all
    from d_round_le_power[OF this] t(1) show ?thesis by simp
  qed
  then obtain y where y: "d_exp (d_round (- s * 10)) = Finite y" "0 \<le> y" "y \<le> 1" by blast
  have "2 powi 0 \<le> 1 + y" "1 + y \<le> 2 powi 1" using y(2,3) by simp_all
  from d_round_between[OF this] obtain d where
    d: "d_round (1 + y) = Finite d" "1 \<le> d" "d \<le> 2" by auto
  have "2 powi (- 1) \<le> 1 / d" "1 / d \<le> 2 powi 0"
    using d(2,3) by (simp_all add: power_int_minus field_simps)
  from d_round_between[OF this] obtain n where
    n: "d_round (1 / d) = Finite n" "1 / 2 \<le> n" "n \<le> 1"
    by (auto simp: power_int_minus field_simps)
  have "raw_confidence_double s = Finite n"
    using assms y(1) d(1,2) n(1) by (simp add: raw_confidence_double_def Let_def)
  with n show ?thesis by blast
qed

lemma confidence_double_neg_score:
  assumes "s < 0"
  shows "\<exists>r. raw_confidence_double s = Finite r \<and> 1 / 2 \<le> r \<and> r \<le> 1"
proof -
  define e where "e = d_exp (d_round (- s * 10))"
  have "0 \<le> - s * 10" using assms by simp
  from d_round_nonneg[OF this]
  have e: "e = PosInf \<or> (\<exists>y. e = Finite y \<and> 1 \<le> y)"
  proof
    assume "d_round (- s * 10) = PosInf"
    thus ?thesis by (simp add: e_def)
  next
    assume "\<exists>t. d_round (- s * 10) = Finite t \<and> 0 \<le> t"
    then obtain t where t: "d_round (- s * 10) = Finite t" "0 \<le> t" by blast
    have "2 powi 0 \<le> exp t" using t(2) by simp
    from d_round_ge_power[OF this] t(1) show ?thesis by (simp add: e_def)
  qed
  define d where "d = one_plus e"
  have d: "d = PosInf \<or> (\<exists>y. d = Finite y \<and> 2 \<le> y)"
  proof (rule disjE[OF e])
    assume "e = PosInf"
    thus ?thesis by (simp add: d_def)
  next
    assume "\<exists>y. e = Finite y \<and> 1 \<le> y"
    then obtain y where y: "e = Finite y" "1 \<le> y" by blast
    have "2 powi 1 \<le> 1 + y" using y(2) by simp
    from d_round_ge_power[OF this] y(1) show ?thesis by (simp add: d_def)
  qed
  have "\<exists>n. one_over d = Finite n \<and> 0 \<le> n \<and> n \<le> 1 / 2"
  proof (rule disjE[OF d])
    assume "d = PosInf"
    thus ?thesis by simp
  next
    assume "\<exists>y. d = Finite y \<and> 2 \<le> y"
    then obtain y where y: "d = Finite y" "2 \<le> y" by blast
    have "0 < 1 / y" "1 / y \<le> 2 powi (- 1)"
      using y(2) by (simp_all add: power_int_minus field_simps)
    from d_round_le_power[OF this] y show ?thesis
      by (auto simp: power_int_minus field_simps)
  qed
  then obtain n where n: "one_over d = Finite n" "0 \<le> n" "n \<le> 1 / 2" by blast
  have "2 powi (- 1) \<le> 1 - n" "1 - n \<le> 2 powi 0"
    using n(2,3) by (simp_all add: power_int_minus field_simps)
  from d_round_between[OF this] obtain c where
    c: "d_round (1 - n) = Finite c" "1 / 2 \<le> c" "c \<le> 1"
    by (auto simp: power_int_minus field_simps)
  have "raw_confidence_double s = Finite c"
    using assms n(1) c(1) by (simp add: raw_confidence_double_def Let_def d_def e_def)
  with c show ?thesis by blast
qed

text \<open>
  Claim C9, as amended. In double arithmetic the confidence of every finite score is a
  finite value at least one half and at most 1, so it is never in \<open>[0, 1/2)\<close>, and the
  final clamp returns the value computed by the two branches unchanged.
\<close>

theorem calculate_confidence_double_range:
  "\<exists>r. calculate_confidence_double s = Finite r \<and> 1 / 2 \<le> r \<and> r \<le> 1 \<and>
       r \<notin> {0 ..< 1 / 2} \<and> raw_confidence_double s = Finite r"
proof -
  obtain r where r: "raw_confidence_double s = Finite r" "1 / 2 \<le> r" "r \<le> 1"
    using confidence_double_nonneg_score[of s] confidence_double_neg_score[of s]
    by (cases "0 \<le> s") auto
  hence "calculate_confidence_double s = Finite r"
    by (auto simp: calculate_confidence_double_def Let_def)
  with r show ?thesis by auto
qed

lemma rhe_near: "of_int N \<le> z \<Longrightarrow> z < of_int N + 1 / 2 \<Longrightarrow> round_half_even z = N"
proof -
  assume a: "of_int N \<le> z" "z < of_int N + 1 / 2"
  hence "\<lfloor>z\<rfloor> = N" by (simp add: floor_eq_iff)
  thus ?thesis using a by (simp add: round_half_even_def Let_def)
qed

lemma floor_log2_eq:
  assumes "2 powi k \<le> x" and "x < 2 powi (k + 1)"
  shows "\<lfloor>log 2 x\<rfloor> = k"
proof (rule antisym)
  have x: "0 < x" using assms(1) by (rule less_le_trans[rotated]) simp
  show "k \<le> \<lfloor>log 2 x\<rfloor>" using assms(1) by (rule floor_log2_ge)
  show "\<lfloor>log 2 x\<rfloor> \<le> k"
  proof (rule ccontr)
    assume "\<not> \<lfloor>log 2 x\<rfloor> \<le> k"
    hence "k + 1 \<le> \<lfloor>log 2 x\<rfloor>" by simp
    hence "(2::real) powi (k + 1) \<le> 2 powi \<lfloor>log 2 x\<rfloor>"
      by (intro power_int_increasing) simp_all
    with floor_log2(1)[OF x] assms(2) show False by simp
  qed
qed

lemma d_round_near_one:
  assumes "1 \<le> x" and "x < 1 + 1 / 2 ^ 53"
  shows "d_round x = Finite 1"
proof -
  have x: "0 < x" using assms(1) by simp
  have "2 powi 0 \<le> x" "x < 2 powi (0 + 1)" using assms by simp_all
  hence k: "\<lfloor>log 2 x\<rfloor> = 0" by (rule floor_log2_eq)
  have q: "(2::real) powi (- 52) = 1 / 2 ^ 52" by (simp add: power_int_minus field_simps)
  have "of_int (2 ^ 52) \<le> x * 2 ^ 52" "x * 2 ^ 52 < of_int (2 ^ 52) + 1 / 2"
    using assms by simp_all
  hence "round_half_even (x * 2 ^ 52) = 2 ^ 52" by (rule rhe_near)
  thus ?thesis by (simp add: d_round_pos[OF x] Let_def k q)
qed

lemma d_round_minus_fifty: "d_round (- 50) = Finite (- 50)"
proof -
  have "2 powi 5 \<le> (50::real)" "(50::real) < 2 powi (5 + 1)" by simp_all
  hence k: "\<lfloor>log 2 (50::real)\<rfloor> = 5" by (rule floor_log2_eq)
  have q: "(2::real) powi (- 47) = 1 / 2 ^ 47" by (simp add: power_int_minus field_simps)
  have m: "round_half_even 7036874417766400 = 7036874417766400"
    using rhe_of_int[of 7036874417766400] by simp
  show ?thesis by (simp add: d_round_def Let_def k q m)
qed

lemma exp_minus_fifty: "exp (- 50 :: real) \<le> 2 powi (- 54)"
proof -
  have "(1 + 1 / of_nat 2) ^ 2 \<le> exp (1::real)"
    by (rule exp_ge_one_plus_x_over_n_power_n) simp_all
  hence e: "9 / 4 \<le> exp (1::real)" by (simp add: power2_eq_square)
  have "(2::real) ^ 54 \<le> (9 / 4) ^ 50" by (simp add: power_divide)
  also have "\<dots> \<le> exp 1 ^ 50" using e by (intro power_mono) simp_all
  also have "\<dots> = exp (of_nat 50 * (1::real))" by (rule exp_of_nat_mult[symmetric])
  finally have "(2::real) ^ 54 \<le> exp 50" by simp
  hence "inverse (exp (50::real)) \<le> inverse (2 ^ 54)"
    by (intro le_imp_inverse_le) simp_all
  thus ?thesis by (simp add: exp_minus power_int_minus)
qed

text \<open>
  Claim C9, as stated, fails: the confidence is not strictly below 1. At score 5 the
  exponential is below \<open>2^-54\<close>, so \<open>1 + exp(-50)\<close> rounds to 1 and the confidence is
  exactly 1.
\<close>

theorem confidence_double_reaches_one:
  "calculate_confidence_double 5 = Finite 1 \<and>
   \<not> d_less (calculate_confidence_double 5) (Finite 1)"
proof -
  have "0 < exp (- 50 :: real)" by simp
  from d_round_le_power[OF this exp_minus_fifty]
  obtain y where y: "d_round (exp (- 50)) = Finite y" "0 \<le> y" "y \<le> 2 powi (- 54)"
    by auto
  have "(2::real) powi (- 54) < 1 / 2 ^ 53" by (simp add: power_int_minus field_simps)
  hence "1 \<le> 1 + y" "1 + y < 1 + 1 / 2 ^ 53" using y(2,3) by simp_all
  hence d: "d_round (1 + y) = Finite 1" by (rule d_round_near_one)
  have one: "d_round 1 = Finite 1" by (rule d_round_near_one) simp_all
  have "raw_confidence_double 5 = Finite 1"
    by (simp add: raw_confidence_double_def Let_def d_round_minus_fifty y(1) d one)
  hence "calculate_confidence_double 5 = Finite 1"
    by (simp add: calculate_confidence_double_def Let_def)
  thus ?thesis by simp
qed

section \<open>Properties of the synthetic data generator\<close>

lemma random_sample_range:
  assumes "random_sample R g = (u, g')"
  shows "0 \<le> u \<and> u < 1"
proof -
  obtain k h where kh: "np_next R g = (k, h)" by (cases "np_next R g")
  with assms have u: "u = real (k mod 2 ^ 53) / 2 ^ 53"
    unfolding random_sample_def by simp
  have "k mod 2 ^ 53 < (2::nat) ^ 53" by simp
  hence "real (k mod 2 ^ 53) < real ((2::nat) ^ 53)"
    by (simp only: of_nat_less_iff)
  hence "real (k mod 2 ^ 53) < 2 ^ 53" by simp
  hence "real (k mod 2 ^ 53) / 2 ^ 53 < 1" by simp
  moreover have "0 \<le> real (k mod 2 ^ 53) / 2 ^ 53" by simp
  ultimately show ?thesis unfolding u by blast
qed

lemma uniform_range:
  assumes "uniform R low high g = (x, g')" and "low \<le> high"
  shows "low \<le> x \<and> x \<le> high"
proof -
  obtain u where u: "random_sample R g = (u, g')" and x: "x = low + (high - low) * u"
    using assms(1) by (auto simp: uniform_def split: prod.splits)
  from random_sample_range[OF u] have "0 \<le> u" "u \<le> 1" by simp_all
  with assms(2) have "0 \<le> (high - low) * u" "(high - low) * u \<le> (high - low) * 1"
    by (simp_all add: mult_left_le)
  thus ?thesis by (simp add: x)
qed

lemma reading_within_reading:
  "reading_within vlo vhi tlo thi plo phi (reading v t p) \<longleftrightarrow>
     vlo \<le> v \<and> v \<le> vhi \<and> tlo \<le> t \<and> t \<le> thi \<and> plo \<le> p \<and> p \<le> phi"
  by (simp add: reading_within_def field_within_def reading_def)

lemma append_readings_appends:
  assumes "fst vr \<le> snd vr" "fst tr \<le> snd tr" "fst pr \<le> snd pr"
  shows "\<exists>new. fst (append_readings R n vr tr pr data g) = data @ new \<and> length new = n \<and>
           list_all (reading_within (fst vr) (snd vr) (fst tr) (snd tr) (fst pr) (snd pr)) new"
proof (induction n arbitrary: data g)
  case 0
  show ?case by simp
next
  case (Suc n)
  obtain v g1 where v: "uniform R (fst vr) (snd vr) g = (v, g1)" by (cases "uniform R (fst vr) (snd vr) g")
  obtain t g2 where t: "uniform R (fst tr) (snd tr) g1 = (t, g2)" by (cases "uniform R (fst tr) (snd tr) g1")
  obtain p g3 where p: "uniform R (fst pr) (snd pr) g2 = (p, g3)" by (cases "uniform R (fst pr) (snd pr) g2")
  from Suc.IH[of "data @ [reading v t p]" g3]
  obtain new where new: "fst (append_readings R n vr tr pr (data @ [reading v t p]) g3) = (data @ [reading v t p]) @ new"
    "length new = n" "list_all (reading_within (fst vr) (snd vr) (fst tr) (snd tr) (fst pr) (snd pr)) new"
    by blast
  have r: "reading_within (fst vr) (snd vr) (fst tr) (snd tr) (fst pr) (snd pr) (reading v t p)"
    using uniform_range[OF v assms(1)] uniform_range[OF t assms(2)] uniform_range[OF p assms(3)]
    by (simp add: reading_within_reading)
  show ?case
    by (rule exI[of _ "reading v t p # new"]) (simp add: v t p new r)
qed

lemma shuffle_from_mset:
  "i < length xs \<Longrightarrow> mset (fst (shuffle_from R i xs g)) = mset xs"
proof (induction i arbitrary: xs g)
  case 0
  show ?case by simp
next
  case (Suc i)
  obtain j g' where j: "random_interval R (Suc i) g = (j, g')" by (cases "random_interval R (Suc i) g")
  hence "j < Suc (Suc i)" by (auto simp: random_interval_def split: prod.splits)
  with Suc.prems have jl: "j < length xs" by simp
  let ?ys = "xs[Suc i := xs ! j, j := xs ! Suc i]"
  have "mset ?ys = mset xs" using mset_swap[OF jl Suc.prems] .
  moreover have "i < length ?ys" using Suc.prems by simp
  ultimately show ?case using Suc.IH[of ?ys g'] by (simp add: j)
qed

lemma shuffle_mset: "mset (fst (shuffle R xs g)) = mset xs"
proof (cases xs)
  case Nil
  thus ?thesis by (simp add: shuffle_def)
next
  case (Cons a as)
  thus ?thesis unfolding shuffle_def by (intro shuffle_from_mset) simp
qed

lemma py_int_nonneg: "0 \<le> x \<Longrightarrow> py_int x = \<lfloor>x\<rfloor>"
  by (simp add: py_int_def)


lemma generate_synthetic_data_structure:
  assumes seeded: "np_seed R seed = Inr g0"
  shows "\<exists>out normal dust overheat vdrop.
     generate_synthetic_data R N seed = Inr out \<and>
     mset out = mset (normal @ dust @ overheat @ vdrop) \<and>
     length normal = nat (py_int (of_int N * 0.90)) \<and>
     length dust = nat (py_int (of_int N * 0.05)) \<and>
     length overheat = nat (py_int (of_int N * 0.03)) \<and>
     length vdrop = nat (N - py_int (of_int N * 0.90) - py_int (of_int N * 0.05)
                          - py_int (of_int N * 0.03)) \<and>
     list_all (reading_within 11.5 12.5 25 35 180 220) normal \<and>
     list_all (reading_within 10.5 11.5 30 38 120 170) dust \<and>
     list_all (reading_within 10.0 11.0 40 48 100 150) overheat \<and>
     list_all (reading_within 9.0 10.5 25 35 80 130) vdrop"
proof -
  define a where "a = py_int (of_int N * 0.90)"
  define b where "b = py_int (of_int N * 0.05)"
  define c where "c = py_int (of_int N * 0.03)"
  define d where "d = N - a - b - c"
  obtain data1 g1 where s1:
    "append_readings R (nat a) (11.5, 12.5) (25, 35) (180, 220) [] g0 = (data1, g1)"
    by (cases "append_readings R (nat a) (11.5, 12.5) (25, 35) (180, 220) [] g0")
  obtain data2 g2 where s2:
    "append_readings R (nat b) (10.5, 11.5) (30, 38) (120, 170) data1 g1 = (data2, g2)"
    by (cases "append_readings R (nat b) (10.5, 11.5) (30, 38) (120, 170) data1 g1")
  obtain data3 g3 where s3:
    "append_readings R (nat c) (10.0, 11.0) (40, 48) (100, 150) data2 g2 = (data3, g3)"
    by (cases "append_readings R (nat c) (10.0, 11.0) (40, 48) (100, 150) data2 g2")
  obtain data4 g4 where s4:
    "append_readings R (nat d) (9.0, 10.5) (25, 35) (80, 130) data3 g3 = (data4, g4)"
    by (cases "append_readings R (nat d) (9.0, 10.5) (25, 35) (80, 130) data3 g3")
  have out: "generate_synthetic_data R N seed = Inr (fst (shuffle R data4 g4))"
    unfolding generate_synthetic_data_def Let_def
    using s1 s2 s3 s4 by (simp add: seeded a_def b_def c_def d_def)
  obtain normal where n: "data1 = [] @ normal" "length normal = nat a"
    "list_all (reading_within 11.5 12.5 25 35 180 220) normal"
    using append_readings_appends[of "(11.5, 12.5)" "(25, 35)" "(180, 220)" R "nat a" "[]" g0] s1
    by auto
  obtain dust where du: "data2 = data1 @ dust" "length dust = nat b"
    "list_all (reading_within 10.5 11.5 30 38 120 170) dust"
    using append_readings_appends[of "(10.5, 11.5)" "(30, 38)" "(120, 170)" R "nat b" data1 g1] s2
    by auto
  obtain overheat where ov: "data3 = data2 @ overheat" "length overheat = nat c"
    "list_all (reading_within 10.0 11.0 40 48 100 150) overheat"
    using append_readings_appends[of "(10.0, 11.0)" "(40, 48)" "(100, 150)" R "nat c" data2 g2] s3
    by auto
  obtain vdrop where vd: "data4 = data3 @ vdrop" "length vdrop = nat d"
    "list_all (reading_within 9.0 10.5 25 35 80 130) vdrop"
    using append_readings_appends[of "(9.0, 10.5)" "(25, 35)" "(80, 130)" R "nat d" data3 g3] s4
    by auto
  have "mset (fst (shuffle R data4 g4)) = mset (normal @ dust @ overheat @ vdrop)"
    unfolding shuffle_mset using n(1) du(1) ov(1) vd(1) by simp
  with out n du ov vd show ?thesis
    unfolding a_def[symmetric] b_def[symmetric] c_def[symmetric] d_def[symmetric]
    unfolding d_def by blast
qed

lemma regime_counts_nat:
  fixes n :: nat
  defines "a \<equiv> \<lfloor>0.90 * real n\<rfloor>" and "b \<equiv> \<lfloor>0.05 * real n\<rfloor>" and "c \<equiv> \<lfloor>0.03 * real n\<rfloor>"
  shows "py_int (of_int (int n) * 0.90) = a" "py_int (of_int (int n) * 0.05) = b"
    "py_int (of_int (int n) * 0.03) = c" "0 \<le> a" "0 \<le> b" "0 \<le> c" "0 \<le> int n - a - b - c"
proof -
  show "py_int (of_int (int n) * 0.90) = a" "py_int (of_int (int n) * 0.05) = b"
    "py_int (of_int (int n) * 0.03) = c"
    by (simp_all add: py_int_def a_def b_def c_def mult.commute)
  show "0 \<le> a" "0 \<le> b" "0 \<le> c" by (simp_all add: a_def b_def c_def)
  have "real_of_int a \<le> 0.90 * real n" "real_of_int b \<le> 0.05 * real n"
    "real_of_int c \<le> 0.03 * real n"
    unfolding a_def b_def c_def by (rule of_int_floor_le)+
  hence "real_of_int (a + b + c) \<le> real n" by simp
  hence "a + b + c \<le> int n" by linarith
  thus "0 \<le> int n - a - b - c" by simp
qed

text \<open>
  Claim C2. For every sample count \<open>n\<close> and every seed the generator accepts, the result
  has exactly \<open>n\<close> readings: a permutation of \<open>\<lfloor>0.90 n\<rfloor>\<close> normal, \<open>\<lfloor>0.05 n\<rfloor>\<close> dust,
  \<open>\<lfloor>0.03 n\<rfloor>\<close> overheat readings and, for the remainder, voltage-drop readings; the four
  counts sum to \<open>n\<close>.
\<close>

theorem generate_synthetic_data_partition:
  fixes n :: nat
  assumes "np_seed R seed = Inr g0"
  shows "\<exists>out normal dust overheat vdrop.
     generate_synthetic_data R (int n) seed = Inr out \<and>
     length out = n \<and>
     mset out = mset (normal @ dust @ overheat @ vdrop) \<and>
     int (length normal) = \<lfloor>0.90 * real n\<rfloor> \<and>
     int (length dust) = \<lfloor>0.05 * real n\<rfloor> \<and>
     int (length overheat) = \<lfloor>0.03 * real n\<rfloor> \<and>
     length vdrop = n - length normal - length dust - length overheat \<and>
     length normal + length dust + length overheat + length vdrop = n \<and>
     list_all (reading_within 11.5 12.5 25 35 180 220) normal \<and>
     list_all (reading_within 10.5 11.5 30 38 120 170) dust \<and>
     list_all (reading_within 10.0 11.0 40 48 100 150) overheat \<and>
     list_all (reading_within 9.0 10.5 25 35 80 130) vdrop"
proof -
  from generate_synthetic_data_structure[OF assms, of "int n"]
  obtain out normal dust overheat vdrop where
    g: "generate_synthetic_data R (int n) seed = Inr out"
    and m: "mset out = mset (normal @ dust @ overheat @ vdrop)"
    and l: "length normal = nat (py_int (of_int (int n) * 0.90))"
      "length dust = nat (py_int (of_int (int n) * 0.05))"
      "length overheat = nat (py_int (of_int (int n) * 0.03))"
      "length vdrop = nat (int n - py_int (of_int (int n) * 0.90) - py_int (of_int (int n) * 0.05)
                          - py_int (of_int (int n) * 0.03))"
    and w: "list_all (reading_within 11.5 12.5 25 35 180 220) normal"
      "list_all (reading_within 10.5 11.5 30 38 120 170) dust"
      "list_all (reading_within 10.0 11.0 40 48 100 150) overheat"
      "list_all (reading_within 9.0 10.5 25 35 80 130) vdrop"
    by blast
  note rc = regime_counts_nat[of n]
  have la: "int (length normal) = \<lfloor>0.90 * real n\<rfloor>" using l(1) rc(1,4) by simp
  have lb: "int (length dust) = \<lfloor>0.05 * real n\<rfloor>" using l(2) rc(2,5) by simp
  have lc: "int (length overheat) = \<lfloor>0.03 * real n\<rfloor>" using l(3) rc(3,6) by simp
  have ld: "int (length vdrop) =
      int n - \<lfloor>0.90 * real n\<rfloor> - \<lfloor>0.05 * real n\<rfloor> - \<lfloor>0.03 * real n\<rfloor>"
    using l(4) rc(1,2,3,7) by simp
  have total: "length normal + length dust + length overheat + length vdrop = n"
    using la lb lc ld by linarith
  have len: "length out = n"
    using arg_cong[OF m, of size] total by simp
  have ld': "length vdrop = n - length normal - length dust - length overheat"
    using total by linarith
  from g m len la lb lc ld' total w show ?thesis by blast
qed

theorem generate_synthetic_data_partition_witness:
  "np_seed example_random 42 = Inr 42 \<and>
   (\<exists>out. generate_synthetic_data example_random (int 10) 42 = Inr out \<and> length out = 10)"
proof -
  have h: "np_seed example_random 42 = Inr 42" by (simp add: example_random_def)
  from generate_synthetic_data_partition[OF h, of 10] h show ?thesis by blast
qed

text \<open>
  Claim C5. Every reading the generator returns lies in the closed intervals of its regime:
  the result is a permutation of four groups, each inside its regime's box.
\<close>

theorem generate_synthetic_data_within_regime:
  assumes "generate_synthetic_data R N seed = Inr out"
  shows "\<exists>normal dust overheat vdrop.
     mset out = mset (normal @ dust @ overheat @ vdrop) \<and>
     list_all (reading_within 11.5 12.5 25 35 180 220) normal \<and>
     list_all (reading_within 10.5 11.5 30 38 120 170) dust \<and>
     list_all (reading_within 10.0 11.0 40 48 100 150) overheat \<and>
     list_all (reading_within 9.0 10.5 25 35 80 130) vdrop \<and>
     list_all (\<lambda>r. reading_within 11.5 12.5 25 35 180 220 r \<or>
                   reading_within 10.5 11.5 30 38 120 170 r \<or>
                   reading_within 10.0 11.0 40 48 100 150 r \<or>
                   reading_within 9.0 10.5 25 35 80 130 r) out"
proof -
  from assms obtain g0 where seeded: "np_seed R seed = Inr g0"
    by (auto simp: generate_synthetic_data_def split: sum.splits)
  from generate_synthetic_data_structure[OF seeded, of N] assms
  obtain normal dust overheat vdrop where
    m: "mset out = mset (normal @ dust @ overheat @ vdrop)"
    and w: "list_all (reading_within 11.5 12.5 25 35 180 220) normal"
      "list_all (reading_within 10.5 11.5 30 38 120 170) dust"
      "list_all (reading_within 10.0 11.0 40 48 100 150) overheat"
      "list_all (reading_within 9.0 10.5 25 35 80 130) vdrop"
    by auto
  have "set out = set (normal @ dust @ overheat @ vdrop)"
    using m by (rule mset_eq_setD)
  hence "list_all (\<lambda>r. reading_within 11.5 12.5 25 35 180 220 r \<or>
                   reading_within 10.5 11.5 30 38 120 170 r \<or>
                   reading_within 10.0 11.0 40 48 100 150 r \<or>
                   reading_within 9.0 10.5 25 35 80 130 r) out"
    using w unfolding list_all_iff by auto
  with m w show ?thesis by blast
qed

theorem generate_synthetic_data_within_regime_witness:
  "generate_synthetic_data example_random 1 42 = Inr [reading 9.375 28.75 105] \<and>
   reading_within 9.0 10.5 25 35 80 130 (reading 9.375 28.75 105)"
proof -
  have h: "generate_synthetic_data example_random 1 42 = Inr [reading 9.375 28.75 105]"
    by (simp add: generate_synthetic_data_def example_random_def py_int_def uniform_def
          random_sample_def shuffle_def)
  from generate_synthetic_data_within_regime[OF h]
  have "reading_within 11.5 12.5 25 35 180 220 (reading 9.375 28.75 105) \<or>
        reading_within 10.5 11.5 30 38 120 170 (reading 9.375 28.75 105) \<or>
        reading_within 10.0 11.0 40 48 100 150 (reading 9.375 28.75 105) \<or>
        reading_within 9.0 10.5 25 35 80 130 (reading 9.375 28.75 105)"
    by auto
  hence "reading_within 9.0 10.5 25 35 80 130 (reading 9.375 28.75 105)"
    by (simp add: reading_within_def field_within_def reading_def)
  with h show ?thesis by blast
qed

section \<open>Properties of the anomaly model\<close>

lemma heuristic_label_numeric:
  "heuristic_label [PyNum v, PyNum t, PyNum p] =
     Inr (if v < 10 \<or> t > 40 \<or> p < 100 then - 1 else 1)"
  by (simp add: heuristic_label_def py_index_def py_lt_def py_gt_def)

lemma heuristic_labels_nth:
  "heuristic_labels X = Inr ys \<Longrightarrow>
     length ys = length X \<and> (\<forall>i<length X. heuristic_label (X ! i) = Inr (ys ! i))"
proof (induction X arbitrary: ys)
  case Nil
  thus ?case by simp
next
  case (Cons s ss)
  then obtain y ys' where y: "heuristic_label s = Inr y" and ys': "heuristic_labels ss = Inr ys'"
    and ys: "ys = y # ys'"
    by (auto split: sum.splits)
  from Cons.IH[OF ys'] have "length ys' = length ss"
    "\<forall>i<length ss. heuristic_label (ss ! i) = Inr (ys' ! i)" by simp_all
  thus ?case using y ys by (auto simp: nth_Cons split: nat.splits)
qed

lemma feature_row_Inr:
  "feature_row d = Inr row \<Longrightarrow>
     \<exists>v t p. py_getitem d ''voltage'' = Inr v \<and> py_getitem d ''temperature'' = Inr t \<and>
       py_getitem d ''power_output'' = Inr p \<and> row = [v, t, p]"
  by (auto simp: feature_row_def split: sum.splits)

lemma feature_rows_Inr:
  "feature_rows ds = Inr rows \<Longrightarrow> list_all2 (\<lambda>d row. feature_row d = Inr row) ds rows"
  by (induction ds arbitrary: rows) (auto split: sum.splits)

lemma validate_Inr:
  assumes "validate L est X_test = Inr vm"
  shows "\<exists>y_pred y_true. sk_predict L est X_test = Inr y_pred \<and>
     heuristic_labels X_test = Inr y_true \<and>
     precision_score L (binary y_true) (binary y_pred) 0 = Inr (precision vm) \<and>
     recall_score L (binary y_true) (binary y_pred) 0 = Inr (recall vm) \<and>
     f1_score L (binary y_true) (binary y_pred) 0 = Inr (f1 vm) \<and>
     sk_confusion_matrix L (binary y_true) (binary y_pred) = Inr (confusion_matrix vm) \<and>
     test_samples vm = length X_test"
  using assms by (auto simp: validate_def Let_def split: sum.splits)

lemma train_Inr:
  assumes "train L self d = (Inr vm, self')"
  shows "\<exists>X X_train X_test est. feature_array L d = Inr X \<and>
     train_test_split L X 0.2 42 = Inr (X_train, X_test) \<and>
     sk_fit L (model self) X_train = (None, est) \<and>
     validate L est X_test = Inr vm \<and>
     self' = self\<lparr>training_samples := length X, model := est, is_trained := True,
                  validation_metrics := Some vm\<rparr>"
  using assms
  by (auto simp: train_def Let_def split: sum.splits prod.splits option.splits)

text \<open>
  Claim C3, as amended. When \<^verbatim>\<open>train\<close> raises, the validation metrics are as they were
  before the call; the trained flag is as it was, or true when the exception came after a
  successful fit; and the object is unchanged when the exception came while the feature
  array was built, while any later exception finds the sample count already overwritten
  with the number of rows of the new array.
\<close>

theorem train_failure_state:
  assumes "train L self d = (Inl e, self')"
  shows "validation_metrics self' = validation_metrics self \<and>
    (is_trained self' = is_trained self \<or>
     (is_trained self' \<and>
      (\<exists>X X_train X_test est. feature_array L d = Inr X \<and>
         train_test_split L X 0.2 42 = Inr (X_train, X_test) \<and>
         sk_fit L (model self) X_train = (None, est) \<and> model self' = est))) \<and>
    (case feature_array L d of Inl e' \<Rightarrow> self' = self
     | Inr X \<Rightarrow> training_samples self' = length X)"
  using assms
  by (auto simp: train_def Let_def split: sum.splits prod.splits option.splits)

theorem train_failure_state_witness:
  "train example_sklearn example_trained malformed_readings =
     (Inl (LibraryError ''could not convert string to float''),
      example_trained\<lparr>training_samples := 5\<rparr>) \<and>
   validation_metrics (example_trained\<lparr>training_samples := 5\<rparr>) =
     validation_metrics example_trained \<and>
   is_trained (example_trained\<lparr>training_samples := 5\<rparr>) = is_trained example_trained \<and>
   training_samples (example_trained\<lparr>training_samples := 5\<rparr>) = 5"
proof -
  have h: "train example_sklearn example_trained malformed_readings =
     (Inl (LibraryError ''could not convert string to float''),
      example_trained\<lparr>training_samples := 5\<rparr>)"
    by (simp add: train_def feature_array_def malformed_readings_def example_sklearn_def
          example_trained_def reading_def feature_row_def numeric_array_def)
  from train_failure_state[OF h] h show ?thesis by simp
qed

text \<open>
  Claim C3, as stated, fails: on a model trained on 10,000 samples, training on five
  readings of which one has a string for its voltage raises in the fit, and the object
  then reports five training samples.
\<close>

theorem train_failure_changes_state:
  "fst (train example_sklearn example_trained malformed_readings) =
     Inl (LibraryError ''could not convert string to float'') \<and>
   training_samples example_trained = 10000 \<and>
   training_samples (snd (train example_sklearn example_trained malformed_readings)) = 5"
  by (simp add: train_def feature_array_def malformed_readings_def example_sklearn_def
        example_trained_def reading_def feature_row_def numeric_array_def)

text \<open>
  Claim C4. On a model whose trained flag is false, \<^verbatim>\<open>predict\<close> raises the exception
  with the message that the model is not trained, whatever the three inputs are.
\<close>

theorem predict_untrained:
  assumes "\<not> is_trained self"
  shows "predict L self voltage temperature power_output =
           Inl (Exception ''Model not trained. Call train() first.'')"
  using assms by (simp add: predict_def)

theorem predict_untrained_witness:
  "\<not> is_trained (init example_sklearn) \<and>
   predict example_sklearn (init example_sklearn) (PyNum 12) (PyNum 28) (PyNum 200) =
     Inl (Exception ''Model not trained. Call train() first.'')"
proof -
  have h: "\<not> is_trained (init example_sklearn)" by (simp add: init_def)
  from predict_untrained[OF h] h show ?thesis by simp
qed

text \<open>
  Claim C6. A successful \<^verbatim>\<open>train\<close> has built one row per item in the column order
  voltage, temperature, power\_output, split the array with test size 0.2 and seed 42,
  fitted the estimator on the train split only, labelled each numeric test sample
  \<open>-1\<close> exactly when voltage < 10 or temperature > 40 or power < 100, and stored the
  precision, recall, F1 and confusion matrix of the predictions on the test split against
  these labels.
\<close>

theorem train_success:
  assumes "train L self d = (Inr vm, self')"
  shows "\<exists>ds rows X X_train X_test est y_pred y_true.
     py_iter d = Inr ds \<and> feature_rows ds = Inr rows \<and>
     list_all2 (\<lambda>d row. \<exists>v t p. py_getitem d ''voltage'' = Inr v \<and>
                  py_getitem d ''temperature'' = Inr t \<and>
                  py_getitem d ''power_output'' = Inr p \<and> row = [v, t, p]) ds rows \<and>
     np_array L rows = Inr X \<and>
     train_test_split L X 0.2 42 = Inr (X_train, X_test) \<and>
     sk_fit L (model self) X_train = (None, est) \<and>
     sk_predict L est X_test = Inr y_pred \<and>
     heuristic_labels X_test = Inr y_true \<and> length y_true = length X_test \<and>
     (\<forall>i<length X_test. \<forall>v t p. X_test ! i = [PyNum v, PyNum t, PyNum p] \<longrightarrow>
        y_true ! i = (if v < 10 \<or> t > 40 \<or> p < 100 then - 1 else 1)) \<and>
     precision_score L (binary y_true) (binary y_pred) 0 = Inr (precision vm) \<and>
     recall_score L (binary y_true) (binary y_pred) 0 = Inr (recall vm) \<and>
     f1_score L (binary y_true) (binary y_pred) 0 = Inr (f1 vm) \<and>
     sk_confusion_matrix L (binary y_true) (binary y_pred) = Inr (confusion_matrix vm) \<and>
     test_samples vm = length X_test \<and>
     self' = self\<lparr>training_samples := length X, model := est, is_trained := True,
                  validation_metrics := Some vm\<rparr>"
proof -
  from train_Inr[OF assms] obtain X X_train X_test est where
    fa: "feature_array L d = Inr X"
    and sp: "train_test_split L X 0.2 42 = Inr (X_train, X_test)"
    and fit: "sk_fit L (model self) X_train = (None, est)"
    and va: "validate L est X_test = Inr vm"
    and self': "self' = self\<lparr>training_samples := length X, model := est, is_trained := True,
                  validation_metrics := Some vm\<rparr>"
    by blast
  from fa obtain ds rows where it: "py_iter d = Inr ds" and fr: "feature_rows ds = Inr rows"
    and arr: "np_array L rows = Inr X"
    by (auto simp: feature_array_def split: sum.splits)
  have ord: "list_all2 (\<lambda>d row. \<exists>v t p. py_getitem d ''voltage'' = Inr v \<and>
                  py_getitem d ''temperature'' = Inr t \<and>
                  py_getitem d ''power_output'' = Inr p \<and> row = [v, t, p]) ds rows"
    using feature_rows_Inr[OF fr] by (rule list_all2_mono) (rule feature_row_Inr)
  from validate_Inr[OF va] obtain y_pred y_true where
    pr: "sk_predict L est X_test = Inr y_pred"
    and hl: "heuristic_labels X_test = Inr y_true"
    and ms: "precision_score L (binary y_true) (binary y_pred) 0 = Inr (precision vm)"
      "recall_score L (binary y_true) (binary y_pred) 0 = Inr (recall vm)"
      "f1_score L (binary y_true) (binary y_pred) 0 = Inr (f1 vm)"
      "sk_confusion_matrix L (binary y_true) (binary y_pred) = Inr (confusion_matrix vm)"
      "test_samples vm = length X_test"
    by blast
  from heuristic_labels_nth[OF hl] have len: "length y_true = length X_test"
    and nth: "\<forall>i<length X_test. heuristic_label (X_test ! i) = Inr (y_true ! i)" by simp_all
  have lab: "\<forall>i<length X_test. \<forall>v t p. X_test ! i = [PyNum v, PyNum t, PyNum p] \<longrightarrow>
        y_true ! i = (if v < 10 \<or> t > 40 \<or> p < 100 then - 1 else 1)"
  proof (intro allI impI)
    fix i v t p
    assume i: "i < length X_test" and x: "X_test ! i = [PyNum v, PyNum t, PyNum p]"
    from nth i have "heuristic_label (X_test ! i) = Inr (y_true ! i)" by simp
    thus "y_true ! i = (if v < 10 \<or> t > 40 \<or> p < 100 then - 1 else 1)"
      unfolding x heuristic_label_numeric by simp
  qed
  from it fr ord arr sp fit pr hl len lab ms self' show ?thesis by blast
qed


theorem train_success_witness:
  "train example_sklearn (init example_sklearn) example_readings =
     (Inr \<lparr>precision = 0, recall = 0, f1 = 0, confusion_matrix = [[0, 0], [1, 0]],
           test_samples = 1\<rparr>,
      \<lparr>model = Fitted [[PyNum 12, PyNum 28, PyNum 200], [PyNum 12.1, PyNum 30, PyNum 210],
                       [PyNum 11.9, PyNum 27, PyNum 190], [PyNum 12.2, PyNum 33, PyNum 205]],
       is_trained = True, training_samples = 5,
       validation_metrics =
         Some \<lparr>precision = 0, recall = 0, f1 = 0, confusion_matrix = [[0, 0], [1, 0]],
               test_samples = 1\<rparr>\<rparr>) \<and>
   (\<exists>y_true. heuristic_labels [[PyNum 10.5, PyNum 45, PyNum 120]] = Inr y_true \<and>
      y_true ! 0 = - 1)"
proof -
  have h: "train example_sklearn (init example_sklearn) example_readings =
     (Inr \<lparr>precision = 0, recall = 0, f1 = 0, confusion_matrix = [[0, 0], [1, 0]],
           test_samples = 1\<rparr>,
      \<lparr>model = Fitted [[PyNum 12, PyNum 28, PyNum 200], [PyNum 12.1, PyNum 30, PyNum 210],
                       [PyNum 11.9, PyNum 27, PyNum 190], [PyNum 12.2, PyNum 33, PyNum 205]],
       is_trained = True, training_samples = 5,
       validation_metrics =
         Some \<lparr>precision = 0, recall = 0, f1 = 0, confusion_matrix = [[0, 0], [1, 0]],
               test_samples = 1\<rparr>\<rparr>)"
    by (simp add: train_def feature_array_def example_readings_def example_sklearn_def
          init_def reading_def feature_row_def numeric_array_def validate_def
          heuristic_label_def py_index_def py_lt_def py_gt_def binary_def
          count_cell_def ratio_or_def Let_def)
  from train_success[OF h] obtain ds rows X X_train X_test y_true where
    it: "py_iter example_readings = Inr ds" and fr: "feature_rows ds = Inr rows"
    and arr: "np_array example_sklearn rows = Inr X"
    and sp: "train_test_split example_sklearn X 0.2 42 = Inr (X_train, X_test)"
    and hl: "heuristic_labels X_test = Inr y_true"
    and lab: "\<forall>i<length X_test. \<forall>v t p. X_test ! i = [PyNum v, PyNum t, PyNum p] \<longrightarrow>
        y_true ! i = (if v < 10 \<or> t > 40 \<or> p < 100 then - 1 else 1)"
    by blast
  from it have ds: "ds = [reading 12 28 200, reading 12.1 30 210, reading 11.9 27 190,
             reading 12.2 33 205, reading 10.5 45 120]"
    by (simp add: example_readings_def)
  from fr have rows: "rows = [[PyNum 12, PyNum 28, PyNum 200], [PyNum 12.1, PyNum 30, PyNum 210],
      [PyNum 11.9, PyNum 27, PyNum 190], [PyNum 12.2, PyNum 33, PyNum 205],
      [PyNum 10.5, PyNum 45, PyNum 120]]"
    unfolding ds by (simp add: feature_row_def reading_def)
  from arr have X: "X = rows" by (simp add: example_sklearn_def)
  from sp have xt: "X_test = [[PyNum 10.5, PyNum 45, PyNum 120]]"
    unfolding X rows by (simp add: example_sklearn_def Let_def)
  have "0 < length X_test" "X_test ! 0 = [PyNum 10.5, PyNum 45, PyNum 120]"
    unfolding xt by simp_all
  with lab have "y_true ! 0 = (if (10.5::real) < 10 \<or> (45::real) > 40 \<or> (120::real) < 100
      then - 1 else 1)"
    by blast
  hence "y_true ! 0 = - 1" by simp
  with hl h show ?thesis unfolding xt by blast
qed

text \<open>
  Claim C8. Whenever deserialization succeeds, \<^verbatim>\<open>load_model\<close> stores the loaded object,
  whatever it is, and sets the trained flag.
\<close>

theorem load_model_sets_trained:
  assumes "joblib_load L filepath = Inr obj"
  shows "load_model L self filepath = (None, self\<lparr>model := obj, is_trained := True\<rparr>) \<and>
         is_trained (snd (load_model L self filepath))"
  using assms by (simp add: load_model_def)

theorem load_model_sets_trained_witness:
  "joblib_load example_sklearn ''model_isolation_forest.joblib'' = Inr Unfitted \<and>
   load_model example_sklearn (init example_sklearn) ''model_isolation_forest.joblib'' =
     (None, (init example_sklearn)\<lparr>model := Unfitted, is_trained := True\<rparr>) \<and>
   is_trained (snd (load_model example_sklearn (init example_sklearn)
                      ''model_isolation_forest.joblib''))"
proof -
  have h: "joblib_load example_sklearn ''model_isolation_forest.joblib'' = Inr Unfitted"
    by (simp add: example_sklearn_def)
  from load_model_sets_trained[OF h] h show ?thesis by blast
qed

section \<open>Properties of the HTTP service\<close>

text \<open>
  Claim C7. A \<^verbatim>\<open>/retrain\<close> request whose \<^verbatim>\<open>training_data\<close> is an array of fewer than
  100 entries is answered with status 400, whatever the entries are, and the model is
  left as it was.
\<close>

theorem retrain_too_few_samples:
  assumes "py_get data ''training_data'' = Inr (PyList xs)" and "length xs < 100"
  shows "retrain L mdl (Inr data) =
           ((JsonError ''Need at least 100 training samples'', 400), mdl)"
  using assms by (simp add: retrain_def)

theorem retrain_too_few_samples_witness:
  "py_get (PyDict [(''training_data'', PyList [reading 12 28 200, PyStr ''junk''])])
     ''training_data'' = Inr (PyList [reading 12 28 200, PyStr ''junk'']) \<and>
   length [reading 12 28 200, PyStr ''junk''] < 100 \<and>
   retrain example_sklearn (Some example_trained)
     (Inr (PyDict [(''training_data'', PyList [reading 12 28 200, PyStr ''junk''])])) =
     ((JsonError ''Need at least 100 training samples'', 400), Some example_trained)"
proof -
  have h1: "py_get (PyDict [(''training_data'', PyList [reading 12 28 200, PyStr ''junk''])])
     ''training_data'' = Inr (PyList [reading 12 28 200, PyStr ''junk''])" by simp
  have h2: "length [reading 12 28 200, PyStr ''junk''] < 100" by simp
  from retrain_too_few_samples[OF h1 h2] h1 h2 show ?thesis by blast
qed

lemma py_get_Inr_dict:
  assumes "py_get data k = Inr v" and "v \<noteq> PyNone"
  shows "py_truthy data"
  using assms by (cases data) (auto split: option.splits)

text \<open>
  Claim C10. A \<^verbatim>\<open>/predict\<close> request that carries all three fields, one of them not a
  number, passes the presence check; the range comparison raises \<^verbatim>\<open>TypeError\<close> and the
  broad handler answers 500, not 400.
\<close>

theorem predict_endpoint_non_numeric:
  assumes "py_get data ''voltage'' = Inr v" and "py_get data ''temperature'' = Inr t"
    and "py_get data ''power_output'' = Inr p"
    and "v \<noteq> PyNone" and "t \<noteq> PyNone" and "p \<noteq> PyNone"
    and "py_number v = None \<or> py_number t = None \<or> py_number p = None"
  shows "predict_endpoint L mdl (Inr data) = (JsonFailure ''Prediction failed'' TypeError, 500)"
proof -
  have tr: "py_truthy data" using assms(1,4) by (rule py_get_Inr_dict)
  show ?thesis
    using assms tr
    by (auto simp: predict_endpoint_def Let_def py_between_def split: option.splits)
qed

theorem predict_endpoint_non_numeric_witness:
  "predict_endpoint example_sklearn (Some example_trained)
     (Inr (PyDict [(''voltage'', PyStr ''12.0''), (''temperature'', PyNum 28),
                   (''power_output'', PyNum 200)])) =
     (JsonFailure ''Prediction failed'' TypeError, 500) \<and>
   snd (predict_endpoint example_sklearn (Some example_trained)
     (Inr (PyDict [(''voltage'', PyStr ''12.0''), (''temperature'', PyNum 28),
                   (''power_output'', PyNum 200)]))) \<noteq> 400"
proof -
  let ?data = "PyDict [(''voltage'', PyStr ''12.0''), (''temperature'', PyNum 28),
                   (''power_output'', PyNum 200)]"
  have "predict_endpoint example_sklearn (Some example_trained) (Inr ?data) =
      (JsonFailure ''Prediction failed'' TypeError, 500)"
    by (rule predict_endpoint_non_numeric[of ?data "PyStr ''12.0''" "PyNum 28" "PyNum 200"])
       simp_all
  thus ?thesis by simp
qed

end
